theory Spec2Isabelle
  imports Main "HOL-Library.Word"
begin

unbundle bit_operations_syntax

section \<open>The TLE92104 simulator (tools/spi\_socket\_server.py)\<close>

text \<open>
  Python integers are unbounded, so frames, register addresses and register values are
  \<open>int\<close>; \<open>>>\<close> is \<open>drop_bit\<close>, \<open><<\<close> is \<open>push_bit\<close>, \<open>&\<close>, \<open>|\<close> and \<open>^\<close> are
  \<open>AND\<close>, \<open>OR\<close> and \<open>XOR\<close>. The elements of a \<open>bytes\<close> object are 8-bit words.
  The \<open>registers\<close> dictionary is a map. Console output (\<open>print\<close>) is not modelled.
\<close>

type_synonym byte = "8 word"

definition REG_WDG :: int where "REG_WDG = 5"
definition REG_DEVID :: int where "REG_DEVID = 8"
definition DEVICE_ID :: int where "DEVICE_ID = 90"

definition CMD_SHIFT :: nat where "CMD_SHIFT = 14"
definition ADDR_SHIFT :: nat where "ADDR_SHIFT = 10"
definition DATA_SHIFT :: nat where "DATA_SHIFT = 2"
definition PARITY_BIT :: nat where "PARITY_BIT = 1"

record simulator =
  registers :: "int \<rightharpoonup> int"
  wdg_count :: int
  last_response_data :: int
  last_response_addr :: int

text \<open>\<open>TLE92104Simulator.__init__\<close>: nine registers, all 0 except DEVID.\<close>

definition TLE92104Simulator :: simulator where
  "TLE92104Simulator =
     \<lparr> registers = [0 \<mapsto> 0, 1 \<mapsto> 0, 2 \<mapsto> 0, 3 \<mapsto> 0, 4 \<mapsto> 0, REG_WDG \<mapsto> 0,
                     6 \<mapsto> 0, 7 \<mapsto> 0, REG_DEVID \<mapsto> DEVICE_ID],
       wdg_count = 0,
       last_response_data = 0,
       last_response_addr = 0 \<rparr>"

text \<open>\<open>dict.get(key, default)\<close>.\<close>

definition dict_get :: "('k \<rightharpoonup> 'v) \<Rightarrow> 'k \<Rightarrow> 'v \<Rightarrow> 'v" where
  "dict_get d k dflt = (case d k of None \<Rightarrow> dflt | Some v \<Rightarrow> v)"

text \<open>The three field extractions at the head of \<open>process_spi_frame\<close>.\<close>

definition frame_cmd :: "int \<Rightarrow> int" where
  "frame_cmd frame_16bit = drop_bit CMD_SHIFT frame_16bit AND 3"

definition frame_addr :: "int \<Rightarrow> int" where
  "frame_addr frame_16bit = drop_bit ADDR_SHIFT frame_16bit AND 15"

definition frame_data :: "int \<Rightarrow> int" where
  "frame_data frame_16bit = drop_bit DATA_SHIFT frame_16bit AND 255"

text \<open>
  The parity loop \<open>for _ in range(14): parity ^= (temp & 1); temp >>= 1\<close>, with the number
  of remaining iterations as first argument.
\<close>

fun parity_loop :: "nat \<Rightarrow> int \<Rightarrow> int \<Rightarrow> int" where
  "parity_loop 0 temp parity = parity"
| "parity_loop (Suc n) temp parity = parity_loop n (drop_bit 1 temp) (parity XOR (temp AND 1))"

text \<open>The tail of \<open>process_spi_frame\<close>: building the response frame.\<close>

definition build_response :: "int \<Rightarrow> int \<Rightarrow> int" where
  "build_response response_addr response_data =
     (let resp_frame = push_bit ADDR_SHIFT (response_addr AND 15)
                       OR push_bit DATA_SHIFT (response_data AND 255);
          temp = drop_bit 2 resp_frame AND 16383;
          parity = parity_loop 14 temp 0
      in resp_frame OR push_bit PARITY_BIT parity)"

text \<open>
  \<open>process_spi_frame\<close>: returns the response frame and the simulator after the call.
\<close>

definition process_spi_frame :: "simulator \<Rightarrow> int \<Rightarrow> int \<times> simulator" where
  "process_spi_frame self frame_16bit =
     (let cmd = frame_cmd frame_16bit;
          addr = frame_addr frame_16bit;
          data = frame_data frame_16bit;
          response_data = last_response_data self;
          response_addr = last_response_addr self;
          self' =
            (if cmd = 0 then
               self\<lparr> last_response_data := dict_get (registers self) addr 0,
                     last_response_addr := addr \<rparr>
             else if cmd = 1 then
               (let self1 =
                      (if addr \<noteq> REG_DEVID then
                         (let self0 = self\<lparr> registers := (registers self)(addr \<mapsto> data) \<rparr>
                          in if addr = REG_WDG
                             then self0\<lparr> wdg_count := wdg_count self0 + 1 \<rparr>
                             else self0)
                       else self)
                in self1\<lparr> last_response_data := dict_get (registers self1) addr 0,
                          last_response_addr := addr \<rparr>)
             else
               self\<lparr> last_response_data := 0, last_response_addr := 0 \<rparr>)
      in (build_response response_addr response_data, self'))"

section \<open>The socket server's message processing\<close>

definition MSG_INIT :: int where "MSG_INIT = 1"
definition MSG_DEINIT :: int where "MSG_DEINIT = 2"
definition MSG_TRANSFER :: int where "MSG_TRANSFER = 3"
definition MSG_SEND :: int where "MSG_SEND = 4"
definition MSG_RECEIVE :: int where "MSG_RECEIVE = 5"
definition MSG_SET_CONFIG :: int where "MSG_SET_CONFIG = 6"
definition MSG_GET_STATUS :: int where "MSG_GET_STATUS = 7"

record device_config =
  baudrate :: int
  mode :: byte
  bit_order :: byte
  data_bits :: byte
  initialized :: bool

text \<open>
  The part of \<open>SpiSocketServer\<close> that \<open>process_message\<close> touches: the simulator
  and the table of configured devices. The sockets and the \<open>running\<close> flag are left out.
\<close>

record server =
  tle92104 :: simulator
  spi_devices :: "int \<rightharpoonup> device_config"

text \<open>
  The loop of \<open>process_spi_transfer\<close>, \<open>for i in range(0, len(payload) - 1, 2)\<close>: one
  frame per complete pair of bytes; a trailing single byte is not read.
\<close>

fun transfer_loop :: "simulator \<Rightarrow> byte list \<Rightarrow> byte list \<times> simulator" where
  "transfer_loop sim (b0 # b1 # rest) =
     (let tx_frame = push_bit 8 (uint b0) OR uint b1;
          (rx_frame, sim') = process_spi_frame sim tx_frame;
          (response, sim'') = transfer_loop sim' rest
      in (word_of_int (drop_bit 8 rx_frame AND 255) # word_of_int (rx_frame AND 255) # response,
          sim''))"
| "transfer_loop sim rest = ([], sim)"

text \<open>
  \<open>process_spi_transfer\<close>. The payload is \<open>None\<close> when the header's length is 0.
\<close>

definition process_spi_transfer :: "simulator \<Rightarrow> byte list option \<Rightarrow> byte list \<times> simulator" where
  "process_spi_transfer sim payload =
     (case payload of
        None \<Rightarrow> ([], sim)
      | Some p \<Rightarrow>
          if p = [] \<or> length p < 2 then (p, sim)
          else (let (response, sim') = transfer_loop sim p
                in (if length p mod 2 \<noteq> 0 then response @ [0] else response, sim')))"

text \<open>\<open>struct.unpack('<IBBB', payload[:7])\<close> on a payload of at least 7 bytes.\<close>

definition unpack_IBBB :: "byte list \<Rightarrow> int \<times> byte \<times> byte \<times> byte" where
  "unpack_IBBB p =
     (uint (p ! 0) + 256 * uint (p ! 1) + 65536 * uint (p ! 2) + 16777216 * uint (p ! 3),
      p ! 4, p ! 5, p ! 6)"

text \<open>\<open>struct.unpack('>H', payload[:2])[0]\<close> on a payload of at least 2 bytes.\<close>

definition unpack_H_be :: "byte list \<Rightarrow> nat" where
  "unpack_H_be p = 256 * unat (p ! 0) + unat (p ! 1)"

text \<open>A payload passes \<open>payload and len(payload) >= n\<close> (for \<open>n > 0\<close>).\<close>

definition payload_at_least :: "byte list option \<Rightarrow> nat \<Rightarrow> bool" where
  "payload_at_least payload n = (case payload of None \<Rightarrow> False | Some p \<Rightarrow> p \<noteq> [] \<and> n \<le> length p)"

text \<open>\<open>process_message\<close>: returns the reply payload and the server after the call.\<close>

definition process_message ::
  "server \<Rightarrow> int \<Rightarrow> int \<Rightarrow> byte list option \<Rightarrow> byte list \<times> server" where
  "process_message self msg_type device_id payload =
     (if msg_type = MSG_INIT then
        (let self1 =
               (if payload_at_least payload 7 then
                  (let (b, m, bo, db) = unpack_IBBB (the payload)
                   in self\<lparr> spi_devices := (spi_devices self)(device_id \<mapsto>
                        \<lparr> baudrate = b, mode = m, bit_order = bo, data_bits = db,
                          initialized = True \<rparr>) \<rparr>)
                else self)
         in ([], self1\<lparr> tle92104 := TLE92104Simulator \<rparr>))
      else if msg_type = MSG_DEINIT then
        (if device_id \<in> dom (spi_devices self)
         then ([], self\<lparr> spi_devices := (spi_devices self)(device_id := None) \<rparr>)
         else ([], self))
      else if msg_type = MSG_TRANSFER then
        (let (response, sim') = process_spi_transfer (tle92104 self) payload
         in (response, self\<lparr> tle92104 := sim' \<rparr>))
      else if msg_type = MSG_SEND then
        (if payload \<noteq> None \<and> payload \<noteq> Some [] then
           (let (response, sim') = process_spi_transfer (tle92104 self) payload
            in ([], self\<lparr> tle92104 := sim' \<rparr>))
         else ([], self))
      else if msg_type = MSG_RECEIVE then
        (if payload_at_least payload 2
         then (replicate (unpack_H_be (the payload)) 0, self)
         else ([], self))
      else if msg_type = MSG_SET_CONFIG then
        (if payload_at_least payload 7 then
           (let (b, m, bo, db) = unpack_IBBB (the payload)
            in case spi_devices self device_id of
                 None \<Rightarrow> ([], self)
               | Some cfg \<Rightarrow>
                   ([], self\<lparr> spi_devices := (spi_devices self)(device_id \<mapsto>
                          cfg\<lparr> baudrate := b, mode := m, bit_order := bo, data_bits := db \<rparr>) \<rparr>))
         else ([], self))
      else if msg_type = MSG_GET_STATUS then
        ([1, 0], self)
      else
        ([], self))"

text \<open>Feeding a sequence of command frames through \<open>process_spi_frame\<close>, one call each.\<close>

fun run_frames :: "simulator \<Rightarrow> int list \<Rightarrow> int list \<times> simulator" where
  "run_frames sim [] = ([], sim)"
| "run_frames sim (f # fs) =
     (let (r, sim') = process_spi_frame sim f;
          (rs, sim'') = run_frames sim' fs
      in (r # rs, sim''))"

text \<open>\<open>SpiSocketServer.__init__\<close>: a fresh simulator and no configured device.\<close>

definition SpiSocketServer :: server where
  "SpiSocketServer = \<lparr> tle92104 = TLE92104Simulator, spi_devices = Map.empty \<rparr>"

section \<open>Auxiliary notions for the proofs\<close>

text \<open>The number of set bits among the low \<open>n\<close> bits of \<open>t\<close>.\<close>

definition bits_set :: "nat \<Rightarrow> int \<Rightarrow> nat" where
  "bits_set n t = length (filter (bit t) [0..<n])"

text \<open>Every register holds an 8-bit value; the pending pair is a 4-bit address and an 8-bit value.\<close>

definition regs_ok :: "simulator \<Rightarrow> bool" where
  "regs_ok s = (\<forall>a. dict_get (registers s) a 0 AND 255 = dict_get (registers s) a 0)"

definition pending_ok :: "simulator \<Rightarrow> bool" where
  "pending_ok s = (last_response_addr s AND 15 = last_response_addr s
                   \<and> last_response_data s AND 255 = last_response_data s)"

text \<open>The exclusive-or of a list of bits.\<close>

definition xor_reduce :: "bool list \<Rightarrow> bool" where
  "xor_reduce bs = foldr (\<lambda>a b. a \<noteq> b) bs False"

text \<open>
  The twelve address and data bits of a response, and a frame made of such a body at bits
  2 and up with the parity of a count \<open>c\<close> at bit 1.
\<close>

definition body12 :: "int \<Rightarrow> int \<Rightarrow> int" where
  "body12 a d = push_bit 8 (a AND 15) OR (d AND 255)"

definition framed :: "int \<Rightarrow> nat \<Rightarrow> int" where
  "framed x c = push_bit 2 x OR push_bit 1 (int c mod 2)"

section \<open>Bit-level facts about the response frame\<close>

lemma and_1_int: "(t::int) AND 1 = of_bool (odd t)"
  by (auto simp add: and_one_eq mod_2_eq_odd)

lemma bits_set_Suc: "bits_set (Suc n) t = of_bool (odd t) + bits_set n (drop_bit 1 t)"
proof -
  have "[0..<Suc n] = 0 # map Suc [0..<n]"
    by (simp add: upt_conv_Cons map_Suc_upt del: upt_Suc)
  then show ?thesis
    by (simp add: bits_set_def filter_map comp_def bit_drop_bit_eq bit_0 del: upt_Suc)
qed

lemma parity_loop_count:
  "p = 0 \<or> p = 1 \<Longrightarrow> parity_loop n t p = (p + int (bits_set n t)) mod 2"
proof (induction n arbitrary: t p)
  case 0
  then show ?case by (auto simp: bits_set_def)
next
  case (Suc n)
  have "p XOR (t AND 1) = 0 \<or> p XOR (t AND 1) = 1"
    using Suc.prems by (auto simp: and_1_int)
  from Suc.IH[OF this] show ?case
    using Suc.prems by (auto simp: and_1_int bits_set_Suc mod_simps)
qed

lemma parity_loop_01: "parity_loop n t 0 = 0 \<or> parity_loop n t 0 = 1"
  by (simp add: parity_loop_count) presburger

lemma mask2: "(3::int) = mask 2" by (simp add: mask_eq_exp_minus_1)
lemma mask4: "(15::int) = mask 4" by (simp add: mask_eq_exp_minus_1)
lemma mask8: "(255::int) = mask 8" by (simp add: mask_eq_exp_minus_1)
lemma mask14: "(16383::int) = mask 14" by (simp add: mask_eq_exp_minus_1)

lemma dec_addr_gen:
  "p = 0 \<or> p = 1 \<Longrightarrow>
   drop_bit 10 ((push_bit 10 (a AND 15) OR push_bit 2 (d AND 255)) OR push_bit 1 (p::int)) AND 15
     = a AND 15"
  unfolding mask4 mask8
  by (rule bit_eqI) (auto simp add: bit_simps)

lemma dec_data_gen:
  "p = 0 \<or> p = 1 \<Longrightarrow>
   drop_bit 2 ((push_bit 10 (a AND 15) OR push_bit 2 (d AND 255)) OR push_bit 1 (p::int)) AND 255
     = d AND 255"
  unfolding mask4 mask8
  by (rule bit_eqI) (auto simp add: bit_simps)

lemma frame_addr_build_response: "frame_addr (build_response a d) = a AND 15"
  unfolding frame_addr_def build_response_def Let_def ADDR_SHIFT_def DATA_SHIFT_def PARITY_BIT_def
  by (rule dec_addr_gen) (rule parity_loop_01)

lemma frame_data_build_response: "frame_data (build_response a d) = d AND 255"
  unfolding frame_data_def build_response_def Let_def ADDR_SHIFT_def DATA_SHIFT_def PARITY_BIT_def
  by (rule dec_data_gen) (rule parity_loop_01)

lemma fst_process_spi_frame:
  "fst (process_spi_frame s f) = build_response (last_response_addr s) (last_response_data s)"
  by (simp add: process_spi_frame_def Let_def)

section \<open>Invariants of the simulator state\<close>

lemma regs_ok_init: "regs_ok TLE92104Simulator"
  by (simp add: regs_ok_def TLE92104Simulator_def dict_get_def REG_WDG_def REG_DEVID_def
      DEVICE_ID_def)

lemma pending_ok_init: "pending_ok TLE92104Simulator"
  by (simp add: pending_ok_def TLE92104Simulator_def)

lemma frame_addr_idem: "frame_addr f AND 15 = frame_addr f"
  by (simp add: frame_addr_def and.assoc)

lemma frame_data_idem: "frame_data f AND 255 = frame_data f"
  by (simp add: frame_data_def and.assoc)

lemma regs_ok_step: "regs_ok s \<Longrightarrow> regs_ok (snd (process_spi_frame s f))"
  by (auto simp: regs_ok_def process_spi_frame_def Let_def dict_get_def frame_data_idem)

lemma pending_ok_step: "regs_ok s \<Longrightarrow> pending_ok (snd (process_spi_frame s f))"
  by (auto simp: regs_ok_def pending_ok_def process_spi_frame_def Let_def frame_addr_idem
      frame_data_idem dict_get_def)

lemma regs_ok_run: "regs_ok s \<Longrightarrow> regs_ok (snd (run_frames s fs))"
  by (induction fs arbitrary: s) (auto simp: split_beta Let_def regs_ok_step)

lemma pending_ok_run: "regs_ok s \<Longrightarrow> pending_ok s \<Longrightarrow> pending_ok (snd (run_frames s fs))"
  by (induction fs arbitrary: s) (auto simp: split_beta Let_def regs_ok_step pending_ok_step)

lemma run_frames_nth:
  "i < length fs \<Longrightarrow>
   fst (run_frames s fs) ! i = fst (process_spi_frame (snd (run_frames s (take i fs))) (fs ! i))"
proof (induction fs arbitrary: s i)
  case Nil
  then show ?case by simp
next
  case (Cons f fs)
  show ?case
  proof (cases i)
    case 0
    then show ?thesis by (simp add: split_beta Let_def)
  next
    case (Suc j)
    with Cons.prems have "j < length fs" by simp
    from Cons.IH[OF this] Suc show ?thesis by (simp add: split_beta Let_def)
  qed
qed

lemma read_step:
  "frame_cmd r = 0 \<Longrightarrow>
   last_response_data (snd (process_spi_frame s r)) = dict_get (registers s) (frame_addr r) 0 \<and>
   last_response_addr (snd (process_spi_frame s r)) = frame_addr r \<and>
   registers (snd (process_spi_frame s r)) = registers s"
  by (simp add: process_spi_frame_def Let_def)

section \<open>The pipeline delay\<close>

text \<open>
  Claim C1. Feed any sequence of at least two command frames through
  \<open>process_spi_frame\<close>, starting from a freshly constructed simulator. The response to the
  first frame decodes to address 0 and data 0, and the response to every later frame \<open>i\<close>
  decodes to the pending pair (\<open>last_response_addr\<close>, \<open>last_response_data\<close>) that the
  simulator held after the frames before \<open>i\<close>, that is, to the immediate result of frame
  \<open>i - 1\<close>.
\<close>

theorem pipeline_delay:
  assumes "2 \<le> length fs"
  shows "(let rs = fst (run_frames TLE92104Simulator fs) in
          frame_addr (rs ! 0) = 0 \<and> frame_data (rs ! 0) = 0 \<and>
          (1 \<le> i \<and> i < length fs \<longrightarrow>
             frame_addr (rs ! i)
               = last_response_addr (snd (run_frames TLE92104Simulator (take i fs))) \<and>
             frame_data (rs ! i)
               = last_response_data (snd (run_frames TLE92104Simulator (take i fs)))))"
proof -
  have first: "0 < length fs" using assms by linarith
  have r0: "fst (run_frames TLE92104Simulator fs) ! 0 = build_response 0 0"
    using run_frames_nth[OF first, of TLE92104Simulator]
    by (simp add: fst_process_spi_frame TLE92104Simulator_def)
  have later: "frame_addr (fst (run_frames TLE92104Simulator fs) ! i)
                 = last_response_addr (snd (run_frames TLE92104Simulator (take i fs)))
             \<and> frame_data (fst (run_frames TLE92104Simulator fs) ! i)
                 = last_response_data (snd (run_frames TLE92104Simulator (take i fs)))"
    if "i < length fs"
  proof -
    have "pending_ok (snd (run_frames TLE92104Simulator (take i fs)))"
      by (rule pending_ok_run[OF regs_ok_init pending_ok_init])
    then show ?thesis
      using run_frames_nth[OF that, of TLE92104Simulator]
      by (simp add: fst_process_spi_frame frame_addr_build_response frame_data_build_response
          pending_ok_def)
  qed
  show ?thesis
    using later by (simp add: Let_def r0 frame_addr_build_response frame_data_build_response)
qed

text \<open>
  A WRITE of 5 to register 1, a READ of register 5, then a READ of register 0: the second
  response carries register 1 and the value 5.
\<close>

theorem pipeline_delay_witness:
  "2 \<le> length [0x4414, 0x1400, 0::int] \<and>
   (let rs = fst (run_frames TLE92104Simulator [0x4414, 0x1400, 0]) in
      frame_addr (rs ! 0) = 0 \<and> frame_data (rs ! 0) = 0 \<and>
      1 \<le> (1::nat) \<and> 1 < length [0x4414, 0x1400, 0::int] \<and>
      frame_addr (rs ! 1)
        = last_response_addr (snd (run_frames TLE92104Simulator (take 1 [0x4414, 0x1400, 0]))) \<and>
      frame_data (rs ! 1)
        = last_response_data (snd (run_frames TLE92104Simulator (take 1 [0x4414, 0x1400, 0]))) \<and>
      frame_addr (rs ! 1) = 1 \<and> frame_data (rs ! 1) = 5)"
  using pipeline_delay[of "[0x4414, 0x1400, 0]" 1]
  by code_simp

section \<open>Scenario 1: reading a register through two transfers\<close>

text \<open>
  Claim C2, as stated: from a fresh server, a TRANSFER of \<open>[0x08, 0x00]\<close> is answered
  \<open>[0x00, 0x00]\<close> and a following TRANSFER of \<open>[0x00, 0x00]\<close> is answered
  \<open>[0x21, 0x6A]\<close>. The first half holds; the second reply is \<open>[0x08, 0x02]\<close>, because the
  frame \<open>0x0800\<close> has address field 2, not 8.
\<close>

theorem scenario1_as_stated_fails:
  "fst (process_message SpiSocketServer MSG_TRANSFER 0 (Some [0x08, 0x00])) = [0x00, 0x00] \<and>
   fst (process_message (snd (process_message SpiSocketServer MSG_TRANSFER 0 (Some [0x08, 0x00])))
          MSG_TRANSFER 0 (Some [0x00, 0x00])) = [0x08, 0x02] \<and>
   fst (process_message (snd (process_message SpiSocketServer MSG_TRANSFER 0 (Some [0x08, 0x00])))
          MSG_TRANSFER 0 (Some [0x00, 0x00])) \<noteq> [0x21, 0x6A]"
  by code_simp

text \<open>
  Claim C2, amended: the frame \<open>0x0800\<close> is a READ of register 2, and the two replies are
  \<open>[0x00, 0x00]\<close> and \<open>[0x08, 0x02]\<close>. The READ of the identity register (address 8) is the
  frame \<open>0x2000\<close>: a TRANSFER of \<open>[0x20, 0x00]\<close> is answered \<open>[0x00, 0x00]\<close>, and a
  following TRANSFER of \<open>[0x00, 0x00]\<close> is answered \<open>[0x21, 0x6A]\<close>.
\<close>

theorem scenario1_identity_read:
  "frame_cmd 0x0800 = 0 \<and> frame_addr 0x0800 = 2 \<and>
   frame_cmd 0x2000 = 0 \<and> frame_addr 0x2000 = 8 \<and>
   fst (process_message SpiSocketServer MSG_TRANSFER 0 (Some [0x08, 0x00])) = [0x00, 0x00] \<and>
   fst (process_message (snd (process_message SpiSocketServer MSG_TRANSFER 0 (Some [0x08, 0x00])))
          MSG_TRANSFER 0 (Some [0x00, 0x00])) = [0x08, 0x02] \<and>
   fst (process_message SpiSocketServer MSG_TRANSFER 0 (Some [0x20, 0x00])) = [0x00, 0x00] \<and>
   fst (process_message (snd (process_message SpiSocketServer MSG_TRANSFER 0 (Some [0x20, 0x00])))
          MSG_TRANSFER 0 (Some [0x00, 0x00])) = [0x21, 0x6A]"
  by code_simp

section \<open>Unmapped addresses\<close>

lemma registers_step_other:
  "\<not> (frame_cmd f = 1 \<and> frame_addr f = a) \<Longrightarrow>
   registers (snd (process_spi_frame s f)) a = registers s a"
  by (auto simp: process_spi_frame_def Let_def)

lemma registers_run_other:
  "\<forall>f \<in> set fs. \<not> (frame_cmd f = 1 \<and> frame_addr f = a) \<Longrightarrow>
   registers (snd (run_frames s fs)) a = registers s a"
  by (induction fs arbitrary: s) (auto simp: split_beta Let_def registers_step_other)

lemma init_unmapped: "9 \<le> a \<Longrightarrow> registers TLE92104Simulator a = None"
  by (simp add: TLE92104Simulator_def REG_WDG_def REG_DEVID_def)

text \<open>
  Claim C3, as stated: a READ of an address in 0x09..0x0F returns 0 after any prior frames,
  WRITEs to that address included, and no operation stores such an address. It fails: a
  WRITE of 5 to address 9 (frame \<open>0x6414\<close>) adds the key 9 to \<open>registers\<close>, and the READ
  of address 9 (frame \<open>0x2400\<close>) that follows returns 5.
\<close>

theorem unmapped_write_is_stored:
  "frame_cmd 0x6414 = 1 \<and> frame_addr 0x6414 = 9 \<and> frame_data 0x6414 = 5 \<and>
   frame_cmd 0x2400 = 0 \<and> frame_addr 0x2400 = 9 \<and>
   registers (snd (run_frames TLE92104Simulator [0x6414])) 9 = Some 5 \<and>
   last_response_data (snd (run_frames TLE92104Simulator [0x6414, 0x2400])) = 5 \<and>
   frame_addr (fst (run_frames TLE92104Simulator [0x6414, 0x2400, 0]) ! 2) = 9 \<and>
   frame_data (fst (run_frames TLE92104Simulator [0x6414, 0x2400, 0]) ! 2) = 5"
  by code_simp

text \<open>
  Claim C3, amended: for an address \<open>a\<close> in 0x09..0x0F, after any sequence of frames from
  a fresh simulator none of which is a WRITE to \<open>a\<close>, the key \<open>a\<close> is not in
  \<open>registers\<close>, a READ of \<open>a\<close> leaves 0 as pending data, and the next response carries
  data 0.
\<close>

theorem unmapped_read_zero:
  assumes "9 \<le> a" and "a \<le> 15"
    and "\<forall>f \<in> set fs. \<not> (frame_cmd f = 1 \<and> frame_addr f = a)"
    and "frame_cmd r = 0" and "frame_addr r = a"
  shows "registers (snd (run_frames TLE92104Simulator fs)) a = None \<and>
         last_response_data (snd (process_spi_frame (snd (run_frames TLE92104Simulator fs)) r)) = 0 \<and>
         frame_data (fst (process_spi_frame
            (snd (process_spi_frame (snd (run_frames TLE92104Simulator fs)) r)) nxt)) = 0"
proof -
  have none: "registers (snd (run_frames TLE92104Simulator fs)) a = None"
    using registers_run_other[OF assms(3)] init_unmapped[OF assms(1)] by simp
  then have "last_response_data
               (snd (process_spi_frame (snd (run_frames TLE92104Simulator fs)) r)) = 0"
    using read_step[OF assms(4)] assms(5) by (simp add: dict_get_def)
  then show ?thesis
    using none by (simp add: fst_process_spi_frame frame_data_build_response)
qed

text \<open>
  A WRITE to address 10, a READ of address 9 and a WRITE to register 1, then a READ of
  address 9.
\<close>

theorem unmapped_read_zero_witness:
  "(9::int) \<le> 9 \<and> (9::int) \<le> 15 \<and>
   frame_cmd 0x6814 = 1 \<and> frame_addr 0x6814 = 10 \<and>
   frame_cmd 0x4414 = 1 \<and> frame_addr 0x4414 = 1 \<and>
   frame_cmd 0x2400 = 0 \<and> frame_addr 0x2400 = 9 \<and>
   registers (snd (run_frames TLE92104Simulator [0x6814, 0x2400, 0x4414])) 9 = None \<and>
   last_response_data (snd (process_spi_frame
      (snd (run_frames TLE92104Simulator [0x6814, 0x2400, 0x4414])) 0x2400)) = 0 \<and>
   frame_data (fst (process_spi_frame (snd (process_spi_frame
      (snd (run_frames TLE92104Simulator [0x6814, 0x2400, 0x4414])) 0x2400)) 0)) = 0"
proof -
  have h1: "(9::int) \<le> 9" and h2: "(9::int) \<le> 15" by simp_all
  have h3: "\<forall>f \<in> set [0x6814, 0x2400, 0x4414]. \<not> (frame_cmd f = 1 \<and> frame_addr f = 9)"
    by code_simp
  have h4: "frame_cmd 0x2400 = 0" by code_simp
  have h5: "frame_addr 0x2400 = 9" by code_simp
  have h6: "frame_cmd 0x6814 = 1 \<and> frame_addr 0x6814 = 10 \<and>
            frame_cmd 0x4414 = 1 \<and> frame_addr 0x4414 = 1"
    by code_simp
  from unmapped_read_zero[OF h1 h2 h3 h4 h5, of 0] h4 h5 h6 show ?thesis by simp
qed

section \<open>The identity register\<close>

lemma devid_step:
  "registers s REG_DEVID = Some DEVICE_ID \<Longrightarrow>
   registers (snd (process_spi_frame s f)) REG_DEVID = Some DEVICE_ID"
  by (auto simp: process_spi_frame_def Let_def)

lemma devid_run:
  "registers s REG_DEVID = Some DEVICE_ID \<Longrightarrow>
   registers (snd (run_frames s fs)) REG_DEVID = Some DEVICE_ID"
  by (induction fs arbitrary: s) (auto simp: split_beta Let_def devid_step)

lemma devid_init: "registers TLE92104Simulator REG_DEVID = Some DEVICE_ID"
  by (simp add: TLE92104Simulator_def)

text \<open>
  Claim C4. After any sequence of command frames from a fresh simulator (WRITEs to
  address 8 included), register 8 holds 0x5A (90); a READ of address 8 leaves 0x5A as
  pending data, and the next response carries address 8 and data 0x5A.
\<close>

theorem devid_invariant:
  "registers (snd (run_frames TLE92104Simulator fs)) 8 = Some 90 \<and>
   (frame_cmd r = 0 \<and> frame_addr r = 8 \<longrightarrow>
      last_response_data (snd (process_spi_frame (snd (run_frames TLE92104Simulator fs)) r)) = 90 \<and>
      frame_addr (fst (process_spi_frame
         (snd (process_spi_frame (snd (run_frames TLE92104Simulator fs)) r)) nxt)) = 8 \<and>
      frame_data (fst (process_spi_frame
         (snd (process_spi_frame (snd (run_frames TLE92104Simulator fs)) r)) nxt)) = 90)"
proof -
  have reg: "registers (snd (run_frames TLE92104Simulator fs)) 8 = Some 90"
    using devid_run[OF devid_init, of fs] by (simp add: REG_DEVID_def DEVICE_ID_def)
  have "(90::int) AND 255 = 90" "(8::int) AND 15 = 8" by simp_all
  then show ?thesis
    using reg
    by (auto simp: read_step dict_get_def fst_process_spi_frame
        frame_addr_build_response frame_data_build_response)
qed

text \<open>
  Two WRITEs to address 8 (data 0 and data 255) and a WRITE to register 1, then a READ of
  address 8.
\<close>

theorem devid_invariant_witness:
  "registers (snd (run_frames TLE92104Simulator [0x6000, 0x63FC, 0x4414])) 8 = Some 90 \<and>
   frame_cmd 0x6000 = 1 \<and> frame_addr 0x6000 = 8 \<and>
   frame_cmd 0x63FC = 1 \<and> frame_addr 0x63FC = 8 \<and> frame_data 0x63FC = 255 \<and>
   frame_cmd 0x2000 = 0 \<and> frame_addr 0x2000 = 8 \<and>
   last_response_data (snd (process_spi_frame
      (snd (run_frames TLE92104Simulator [0x6000, 0x63FC, 0x4414])) 0x2000)) = 90 \<and>
   frame_data (fst (process_spi_frame (snd (process_spi_frame
      (snd (run_frames TLE92104Simulator [0x6000, 0x63FC, 0x4414])) 0x2000)) 0)) = 90"
proof -
  have h: "frame_cmd 0x2000 = 0 \<and> frame_addr 0x2000 = 8" by code_simp
  have g: "frame_cmd 0x6000 = 1 \<and> frame_addr 0x6000 = 8 \<and>
           frame_cmd 0x63FC = 1 \<and> frame_addr 0x63FC = 8 \<and> frame_data 0x63FC = 255"
    by code_simp
  from devid_invariant[of "[0x6000, 0x63FC, 0x4414]" "0x2000" 0] h g show ?thesis by simp
qed

section \<open>Parity of the response frame\<close>

lemma xor_reduce_count: "xor_reduce bs = odd (length (filter (\<lambda>b. b) bs))"
  by (induction bs) (auto simp: xor_reduce_def)

lemma resp_frame_body:
  "push_bit 10 (a AND 15) OR push_bit 2 (d AND 255) = push_bit 2 (body12 a d)"
  unfolding body12_def by (simp add: push_bit_or push_bit_push_bit flip: push_bit_add)

lemma body12_low: "drop_bit 2 (push_bit 2 (body12 a d)) AND 16383 = body12 a d"
  unfolding body12_def mask4 mask8 mask14
  by (rule bit_eqI) (auto simp: bit_simps)

lemma body12_high: "12 \<le> n \<Longrightarrow> \<not> bit (body12 a d) n"
  unfolding body12_def mask4 mask8
  by (auto simp: bit_simps)

lemma body12_bit_less: "bit (body12 a d) n \<Longrightarrow> n < 12"
  using body12_high[of n a d] by (cases "n < 12") auto

lemma body12_nonneg: "0 \<le> body12 a d"
  by (simp add: body12_def)

lemma build_response_body:
  "build_response a d = framed (body12 a d) (bits_set 14 (body12 a d))"
  unfolding build_response_def Let_def ADDR_SHIFT_def DATA_SHIFT_def PARITY_BIT_def
    resp_frame_body body12_low framed_def
  by (simp only: parity_loop_count simp_thms add_0)

lemma bit_framed:
  "bit (framed x c) n =
     (if n = 0 then False else if n = 1 then odd c else bit x (n - 2))"
proof -
  have "int c mod 2 = of_bool (odd c)" by (auto simp: mod_2_eq_odd)
  then show ?thesis
    by (auto simp: framed_def bit_simps bit_or_iff bit_push_bit_iff_int)
qed

lemma bit_framed_0: "\<not> bit (framed x c) 0"
  by (simp add: bit_framed)

lemma bit_framed_1: "bit (framed x c) (Suc 0) = odd c"
  by (simp add: bit_framed)

lemma bit_framed_SS: "bit (framed x c) (Suc (Suc n)) = bit x n"
  by (simp add: bit_framed)

lemma upt_1_16: "[1..<16] = 1 # map (\<lambda>i. Suc (Suc i)) [0..<14]"
  by code_simp

lemma upt_2_16: "[2..<16] = map (\<lambda>i. Suc (Suc i)) [0..<14]"
  by code_simp

lemma count_framed:
  "length (filter (bit (framed x c)) [1..<16]) = of_bool (odd c) + bits_set 14 x"
  unfolding upt_1_16
  by (simp add: bit_framed_1 bit_framed_SS filter_map comp_def bits_set_def del: upt_Suc)

lemma xor_framed:
  "xor_reduce (map (bit (framed x c)) [2..<16]) = odd (bits_set 14 x)"
  unfolding upt_2_16 xor_reduce_count
  by (simp add: bit_framed_SS filter_map comp_def bits_set_def del: upt_Suc)

lemma frame_cmd_framed: "frame_cmd (framed (body12 a d) c) = 0"
  unfolding frame_cmd_def CMD_SHIFT_def mask2
  by (rule bit_eqI) (auto simp: bit_simps bit_framed body12_high)

lemma framed_nonneg: "0 \<le> x \<Longrightarrow> 0 \<le> framed x c"
  by (simp add: framed_def)

lemma framed_take_bit: "take_bit 16 (framed (body12 a d) c) = framed (body12 a d) c"
  by (rule bit_eqI) (auto simp: bit_simps bit_framed dest: body12_bit_less)

lemma framed_less: "framed (body12 a d) c < 65536"
proof -
  have "take_bit 16 (framed (body12 a d) c) < 2 ^ 16"
    by (rule take_bit_int_less_exp)
  then show ?thesis by (simp add: framed_take_bit)
qed

lemma even_count_framed: "even (length (filter (bit (framed x (bits_set 14 x))) [1..<16]))"
  unfolding count_framed by simp

lemma bit1_framed:
  "bit (framed x (bits_set 14 x)) 1
     = xor_reduce (map (bit (framed x (bits_set 14 x))) [2..<16])"
  unfolding xor_framed using bit_framed_1[of x "bits_set 14 x"] by simp

text \<open>
  Claim C5. Every response frame of \<open>process_spi_frame\<close>, from any simulator state and for
  any command frame, is a 16-bit value with an even number of set bits among bits 1 to 15;
  its bit 1 is the exclusive-or of its bits 2 to 15; its command field (bits 15 and 14) is 0
  and its bit 0 is clear.
\<close>

theorem response_parity:
  "(let r = fst (process_spi_frame s f) in
      even (length (filter (bit r) [1..<16])) \<and>
      bit r 1 = xor_reduce (map (bit r) [2..<16]) \<and>
      frame_cmd r = 0 \<and> \<not> bit r 0 \<and> 0 \<le> r \<and> r < 65536)"
  unfolding Let_def fst_process_spi_frame build_response_body
  using even_count_framed bit1_framed frame_cmd_framed bit_framed_0
    framed_nonneg[OF body12_nonneg] framed_less
  by blast

section \<open>Length of a transfer\<close>

lemma length_transfer_loop: "length (fst (transfer_loop s p)) = 2 * (length p div 2)"
  by (induction p arbitrary: s rule: induct_list012) (auto simp: split_beta Let_def)

text \<open>
  Claim C6, as stated: the output of a transfer is as long as its payload, and for every
  payload of odd length, one byte included, the last output byte is 0. The second half
  fails on a payload of one byte, which is returned as it is.
\<close>

theorem one_byte_transfer_verbatim:
  "odd (length [0xAA::byte]) \<and>
   fst (process_message SpiSocketServer MSG_TRANSFER 0 (Some [0xAA])) = [0xAA] \<and>
   last (fst (process_message SpiSocketServer MSG_TRANSFER 0 (Some [0xAA]))) \<noteq> 0"
  by code_simp

text \<open>
  Claim C6, amended: the output of a transfer is as long as its payload (and empty for an
  absent payload); for every payload of odd length at least 3 the last output byte is 0; a
  payload of one byte is returned unchanged.
\<close>

theorem transfer_length:
  "length (fst (process_spi_transfer sim (Some p))) = length p \<and>
   fst (process_spi_transfer sim None) = [] \<and>
   (odd (length p) \<and> 3 \<le> length p \<longrightarrow> last (fst (process_spi_transfer sim (Some p))) = 0) \<and>
   (length p = 1 \<longrightarrow> fst (process_spi_transfer sim (Some p)) = p)"
proof -
  have len: "length (fst (process_spi_transfer sim (Some p))) = length p"
  proof (cases "length p < 2")
    case True
    then show ?thesis by (simp add: process_spi_transfer_def)
  next
    case False
    then show ?thesis
      by (cases "even (length p)")
        (auto simp: process_spi_transfer_def split_beta Let_def length_transfer_loop
          odd_iff_mod_2_eq_one elim: oddE)
  qed
  have odd3: "last (fst (process_spi_transfer sim (Some p))) = 0"
    if "odd (length p)" "3 \<le> length p"
    using that by (auto simp: process_spi_transfer_def split_beta Let_def)
  show ?thesis
    using len odd3 by (auto simp: process_spi_transfer_def)
qed

theorem transfer_length_witness:
  "length (fst (process_spi_transfer TLE92104Simulator (Some [0x00, 0x00, 0xAA])))
     = length [0x00, 0x00, 0xAA::byte] \<and>
   odd (length [0x00, 0x00, 0xAA::byte]) \<and> 3 \<le> length [0x00, 0x00, 0xAA::byte] \<and>
   last (fst (process_spi_transfer TLE92104Simulator (Some [0x00, 0x00, 0xAA]))) = 0 \<and>
   length [0x55::byte] = 1 \<and>
   fst (process_spi_transfer TLE92104Simulator (Some [0x55])) = [0x55]"
  using transfer_length[of TLE92104Simulator "[0x00, 0x00, 0xAA]"]
    transfer_length[of TLE92104Simulator "[0x55]"]
  by simp

section \<open>Reset on INIT\<close>

lemma init_default_zero: "a \<noteq> 8 \<Longrightarrow> dict_get (registers TLE92104Simulator) a 0 = 0"
  by (simp add: TLE92104Simulator_def dict_get_def REG_WDG_def REG_DEVID_def)

lemma init_message:
  "fst (process_message s MSG_INIT device_id payload) = [] \<and>
   tle92104 (snd (process_message s MSG_INIT device_id payload)) = TLE92104Simulator"
  by (simp add: process_message_def Let_def split_beta)

text \<open>
  Claim C7. An INIT message, whatever its payload (absent, short or long) and whatever the
  server's state before, is answered with an empty payload and leaves the server with a
  simulator equal to a freshly constructed one (default registers, pending pair (0, 0),
  watchdog counter 0). A READ of any address other than 8 then leaves 0 as pending data,
  and the next response carries that address and data 0.
\<close>

theorem init_resets:
  "fst (process_message s MSG_INIT device_id payload) = [] \<and>
   tle92104 (snd (process_message s MSG_INIT device_id payload)) = TLE92104Simulator \<and>
   (frame_cmd r = 0 \<and> frame_addr r \<noteq> 8 \<longrightarrow>
      (let sim1 = snd (process_spi_frame
                         (tle92104 (snd (process_message s MSG_INIT device_id payload))) r)
       in last_response_data sim1 = 0 \<and>
          frame_addr (fst (process_spi_frame sim1 nxt)) = frame_addr r \<and>
          frame_data (fst (process_spi_frame sim1 nxt)) = 0))"
  by (simp add: init_message read_step init_default_zero fst_process_spi_frame
      frame_addr_build_response frame_data_build_response frame_addr_idem Let_def)

text \<open>
  A transfer writes 5 to register 1 and 3 to the watchdog register; INIT with no payload
  follows; register 1 then reads 0.
\<close>

theorem init_resets_witness:
  "(let s = snd (process_message SpiSocketServer MSG_TRANSFER 0 (Some [0x44, 0x14, 0x54, 0x0C]));
        s' = snd (process_message s MSG_INIT 0 None);
        sim1 = snd (process_spi_frame (tle92104 s') 0x0400)
    in registers (tle92104 s) 1 = Some 5 \<and> wdg_count (tle92104 s) = 1 \<and>
       last_response_addr (tle92104 s) = 5 \<and>
       frame_cmd 0x0400 = 0 \<and> frame_addr 0x0400 = 1 \<and> frame_addr 0x0400 \<noteq> 8 \<and>
       tle92104 s' = TLE92104Simulator \<and>
       last_response_data sim1 = 0 \<and>
       frame_addr (fst (process_spi_frame sim1 0)) = frame_addr 0x0400 \<and>
       frame_data (fst (process_spi_frame sim1 0)) = 0)"
proof -
  have pre: "registers (tle92104 (snd (process_message SpiSocketServer MSG_TRANSFER 0
                 (Some [0x44, 0x14, 0x54, 0x0C])))) 1 = Some 5"
    "wdg_count (tle92104 (snd (process_message SpiSocketServer MSG_TRANSFER 0
                 (Some [0x44, 0x14, 0x54, 0x0C])))) = 1"
    "last_response_addr (tle92104 (snd (process_message SpiSocketServer MSG_TRANSFER 0
                 (Some [0x44, 0x14, 0x54, 0x0C])))) = 5"
    by code_simp+
  have h: "frame_cmd 0x0400 = 0" "frame_addr 0x0400 = 1" "frame_addr 0x0400 \<noteq> 8"
    by code_simp+
  note inst = init_resets[of "snd (process_message SpiSocketServer MSG_TRANSFER 0
                 (Some [0x44, 0x14, 0x54, 0x0C]))" 0 None "0x0400" 0, unfolded Let_def]
  from inst pre h show ?thesis unfolding Let_def by blast
qed

section \<open>Parity and reserved bit of a command frame\<close>

lemma frame_cmd_alt: "frame_cmd f = drop_bit 12 (take_bit 14 (drop_bit 2 f)) AND 3"
  unfolding frame_cmd_def CMD_SHIFT_def mask2
  by (rule bit_eqI) (auto simp: bit_simps)

lemma frame_addr_alt: "frame_addr f = drop_bit 8 (take_bit 14 (drop_bit 2 f)) AND 15"
  unfolding frame_addr_def ADDR_SHIFT_def mask4
  by (rule bit_eqI) (auto simp: bit_simps)

lemma frame_data_alt: "frame_data f = take_bit 14 (drop_bit 2 f) AND 255"
  unfolding frame_data_def DATA_SHIFT_def mask8
  by (rule bit_eqI) (auto simp: bit_simps)

text \<open>
  Claim C8. Two command frames that agree on bits 15 to 2 (the 14 bits above the parity and
  reserved bits) get, from the same simulator state, the same response frame and leave the
  same simulator state: \<open>process_spi_frame\<close> never looks at bits 1 and 0.
\<close>

theorem parity_not_validated:
  assumes "take_bit 14 (drop_bit 2 f1) = take_bit 14 (drop_bit 2 f2)"
  shows "process_spi_frame s f1 = process_spi_frame s f2"
proof -
  have "frame_cmd f1 = frame_cmd f2" "frame_addr f1 = frame_addr f2"
    "frame_data f1 = frame_data f2"
    using assms by (simp_all only: frame_cmd_alt frame_addr_alt frame_data_alt)
  then show ?thesis by (simp add: process_spi_frame_def)
qed

text \<open>The WRITE frame \<open>0x4414\<close> and the same frame with bits 1 and 0 set.\<close>

theorem parity_not_validated_witness:
  "take_bit 14 (drop_bit 2 (0x4414::int)) = take_bit 14 (drop_bit 2 0x4417) \<and>
   process_spi_frame TLE92104Simulator 0x4414 = process_spi_frame TLE92104Simulator 0x4417"
proof -
  have h: "take_bit 14 (drop_bit 2 (0x4414::int)) = take_bit 14 (drop_bit 2 0x4417)" by simp
  from parity_not_validated[OF h] h show ?thesis by simp
qed

section \<open>RECEIVE\<close>

text \<open>
  Claim C9. A RECEIVE message with a payload of at least two bytes is answered with
  \<open>256 * payload[0] + payload[1]\<close> zero bytes (the big-endian reading of the first two
  bytes), whatever the server's state, and the server's state is returned unchanged.
\<close>

theorem receive_zero_bytes:
  assumes "2 \<le> length p"
  shows "process_message s MSG_RECEIVE device_id (Some p)
           = (replicate (256 * unat (p ! 0) + unat (p ! 1)) 0, s)"
  using assms
  by (auto simp: process_message_def MSG_RECEIVE_def MSG_INIT_def MSG_DEINIT_def MSG_TRANSFER_def
      MSG_SEND_def payload_at_least_def unpack_H_be_def)

theorem receive_zero_bytes_witness:
  "2 \<le> length [0x00, 0x05::byte] \<and>
   process_message SpiSocketServer MSG_RECEIVE 0 (Some [0x00, 0x05])
     = ([0, 0, 0, 0, 0], SpiSocketServer)"
proof -
  have h: "2 \<le> length [0x00, 0x05::byte]" by simp
  have n: "256 * unat ([0x00, 0x05::byte] ! 0) + unat ([0x00, 0x05::byte] ! 1) = 5" by simp
  have r: "replicate 5 (0::byte) = [0, 0, 0, 0, 0]" by code_simp
  from receive_zero_bytes[OF h, of SpiSocketServer 0] h show ?thesis
    by (simp only: n r simp_thms)
qed

section \<open>Messages that leave the simulator alone\<close>

text \<open>
  Claim C10. A message whose type is none of INIT, TRANSFER and SEND (so DEINIT, RECEIVE,
  SET\_CONFIG, GET\_STATUS and every unknown type) leaves the simulator as it was:
  registers, pending pair and watchdog counter.
\<close>

theorem engine_untouched:
  assumes "msg_type \<noteq> MSG_INIT" and "msg_type \<noteq> MSG_TRANSFER" and "msg_type \<noteq> MSG_SEND"
  shows "tle92104 (snd (process_message s msg_type device_id payload)) = tle92104 s"
  using assms
  by (auto simp: process_message_def Let_def split_beta split: option.splits)

theorem engine_untouched_witness:
  "MSG_DEINIT \<noteq> MSG_INIT \<and> MSG_DEINIT \<noteq> MSG_TRANSFER \<and> MSG_DEINIT \<noteq> MSG_SEND \<and>
   tle92104 (snd (process_message SpiSocketServer MSG_DEINIT 0 None)) = tle92104 SpiSocketServer"
proof -
  have h: "MSG_DEINIT \<noteq> MSG_INIT" "MSG_DEINIT \<noteq> MSG_TRANSFER" "MSG_DEINIT \<noteq> MSG_SEND"
    by (simp_all add: MSG_DEINIT_def MSG_INIT_def MSG_TRANSFER_def MSG_SEND_def)
  from engine_untouched[OF h, of SpiSocketServer 0 None] h show ?thesis by simp
qed

end
